theory Spec2Isabelle
  imports Main
begin

section \<open>Text and the library the scripts call\<close>

text \<open>
  A Python \<open>str\<close> is a sequence of Unicode code points, so a text is a list of
  code points: \<open>len\<close> is \<open>length\<close>, \<open>s[:k]\<close> is \<open>take k s\<close>. The literals of the
  scripts are written with \<open>asc\<close> where they are ASCII and with the code point
  where they are not: the Vietnamese word for "seconds", written \<open>giay\<close> in the
  comments here, has U+00E2 as its third letter, and the Vietnamese phrase for
  "too many requests" has U+00E1 and U+1EC1.
\<close>

type_synonym ustr = "nat list"

definition asc :: "string \<Rightarrow> ustr" where
  "asc s = map of_char s"

text \<open>
  \<open>download_vn_stocks.py\<close> and \<open>download_vn30.py\<close> call \<open>str.lower\<close>,
  \<open>re.search\<close> with \<open>re.IGNORECASE\<close> and \<open>int\<close>. What these do on all of Unicode
  is a table of the interpreter, not code of the scripts, so the model takes it as a
  parameter: \<open>str_lower\<close> is \<open>str.lower\<close>; \<open>re_ci p c\<close> says that the pattern
  letter \<open>p\<close> matches the text character \<open>c\<close> under \<open>re.IGNORECASE\<close>; \<open>re_space\<close>
  and \<open>re_digit\<close> are the classes \<open>\s\<close> and \<open>\d\<close>; \<open>int_of\<close> is \<open>int\<close> on a
  string of digits (a natural number; the refusal of digit strings longer than the
  interpreter's limit, 4300 characters by default, is left out). Every general
  theorem below holds for any such library.
\<close>

record pylib =
  str_lower :: "ustr \<Rightarrow> ustr"
  re_ci :: "nat \<Rightarrow> nat \<Rightarrow> bool"
  re_space :: "nat \<Rightarrow> bool"
  re_digit :: "nat \<Rightarrow> bool"
  int_of :: "ustr \<Rightarrow> nat"

text \<open>
  The library as Python has it on ASCII text, used to run the model on concrete
  messages: letters \<open>A\<close> to \<open>Z\<close> are lowered, the ASCII white space and digits are
  the classes, a string of ASCII digits is read in base ten. Other code points are
  left alone and match only themselves, which is what Python does with the lowercase
  Vietnamese letters of the messages below.
\<close>

definition ascii_lower :: "nat \<Rightarrow> nat" where
  "ascii_lower c = (if 65 \<le> c \<and> c \<le> 90 then c + 32 else c)"

definition ascii_space :: "nat \<Rightarrow> bool" where
  "ascii_space c = (c = 32 \<or> (9 \<le> c \<and> c \<le> 13) \<or> (28 \<le> c \<and> c \<le> 31))"

definition ascii_digit :: "nat \<Rightarrow> bool" where
  "ascii_digit c = (48 \<le> c \<and> c \<le> 57)"

definition decimal :: "ustr \<Rightarrow> nat" where
  "decimal ds = foldl (\<lambda>n d. 10 * n + (d - 48)) 0 ds"

definition py_ascii :: pylib where
  "py_ascii = \<lparr> str_lower = map ascii_lower,
                re_ci = (\<lambda>p c. ascii_lower p = ascii_lower c),
                re_space = ascii_space,
                re_digit = ascii_digit,
                int_of = decimal \<rparr>"

subsection \<open>Substring test\<close>

text \<open>\<open>p in s\<close> on strings: \<open>p\<close> occurs in \<open>s\<close> at some position.\<close>

fun py_in :: "ustr \<Rightarrow> ustr \<Rightarrow> bool" where
  "py_in p [] = (p = [])"
| "py_in p (c # cs) = (take (length p) (c # cs) = p \<or> py_in p cs)"

subsection \<open>Throttling phrases\<close>

definition phrase_rate_limit :: ustr where
  "phrase_rate_limit = asc ''rate limit''"

definition phrase_qua_nhieu :: ustr where
  "phrase_qua_nhieu = asc ''qu'' @ [225] @ asc '' nhi'' @ [7873] @ asc ''u request''"

definition phrase_too_many :: ustr where
  "phrase_too_many = asc ''too many request''"

definition phrase_terminated :: ustr where
  "phrase_terminated = asc ''process terminated''"

text \<open>
  The test of \<open>download_symbol_data\<close> (and, word for word, of
  \<open>download_vn30_data\<close>) on \<open>error_msg = str(e)\<close>, in the order of the source.
\<close>

definition is_rate_limit :: "pylib \<Rightarrow> ustr \<Rightarrow> bool" where
  "is_rate_limit L error_msg =
     (py_in phrase_rate_limit (str_lower L error_msg) \<or>
      py_in phrase_qua_nhieu (str_lower L error_msg) \<or>
      py_in phrase_too_many (str_lower L error_msg) \<or>
      py_in phrase_terminated (str_lower L error_msg))"

text \<open>The four phrases, for the statements below.\<close>

definition throttle_phrases :: "ustr list" where
  "throttle_phrases = [phrase_rate_limit, phrase_qua_nhieu, phrase_too_many, phrase_terminated]"

section \<open>The regular expressions of \<open>extract_wait_time\<close>\<close>

text \<open>
  The four patterns are sequences of three kinds of item: a literal word, \<open>\s+\<close>,
  and the group \<open>(\d+)\<close>. \<open>re.search\<close> backtracks: a greedy \<open>+\<close> takes the longest
  run first and gives characters back one at a time while the rest of the pattern
  fails; the start position moves from left to right. \<open>runs P s\<close> lists the ways
  \<open>P+\<close> can match at the head of \<open>s\<close> in that order, \<open>rx_match\<close> returns the text of
  the group on the first path that succeeds, and \<open>re_search\<close> tries each start
  position in turn.
\<close>

datatype tok = Lit ustr | Spaces | Digits

fun lit_prefix :: "pylib \<Rightarrow> ustr \<Rightarrow> ustr \<Rightarrow> ustr option" where
  "lit_prefix L [] s = Some s"
| "lit_prefix L (p # ps) [] = None"
| "lit_prefix L (p # ps) (c # cs) = (if re_ci L p c then lit_prefix L ps cs else None)"

fun runs :: "(nat \<Rightarrow> bool) \<Rightarrow> ustr \<Rightarrow> (ustr \<times> ustr) list" where
  "runs P [] = []"
| "runs P (c # cs) =
     (if P c then map (\<lambda>(t, r). (c # t, r)) (runs P cs) @ [([c], cs)] else [])"

fun first_some :: "'a option list \<Rightarrow> 'a option" where
  "first_some [] = None"
| "first_some (None # xs) = first_some xs"
| "first_some (Some x # xs) = Some x"

fun rx_match :: "pylib \<Rightarrow> tok list \<Rightarrow> ustr \<Rightarrow> ustr \<Rightarrow> ustr option" where
  "rx_match L [] s g = Some g"
| "rx_match L (Lit p # ts) s g =
     (case lit_prefix L p s of None \<Rightarrow> None | Some r \<Rightarrow> rx_match L ts r g)"
| "rx_match L (Spaces # ts) s g =
     first_some (map (\<lambda>(t, r). rx_match L ts r g) (runs (re_space L) s))"
| "rx_match L (Digits # ts) s g =
     first_some (map (\<lambda>(t, r). rx_match L ts r t) (runs (re_digit L) s))"

fun re_search :: "pylib \<Rightarrow> tok list \<Rightarrow> ustr \<Rightarrow> ustr option" where
  "re_search L pat [] = rx_match L pat [] []"
| "re_search L pat (c # cs) =
     (case rx_match L pat (c # cs) [] of
        Some g \<Rightarrow> Some g
      | None \<Rightarrow> re_search L pat cs)"

definition word_giay :: ustr where
  "word_giay = asc ''gi'' @ [226] @ asc ''y''"

definition pat_sau_giay :: "tok list" where
  "pat_sau_giay = [Lit (asc ''sau''), Spaces, Digits, Spaces, Lit word_giay]"

definition pat_after_seconds :: "tok list" where
  "pat_after_seconds = [Lit (asc ''after''), Spaces, Digits, Spaces, Lit (asc ''seconds'')]"

definition pat_giay :: "tok list" where
  "pat_giay = [Digits, Spaces, Lit word_giay]"

definition pat_seconds :: "tok list" where
  "pat_seconds = [Digits, Spaces, Lit (asc ''seconds'')]"

definition patterns :: "tok list list" where
  "patterns = [pat_sau_giay, pat_after_seconds, pat_giay, pat_seconds]"

text \<open>
  The loop \<open>for pattern in patterns\<close>: the first pattern that matches decides, and
  \<open>None\<close> is returned when the list is exhausted.
\<close>

fun first_match :: "pylib \<Rightarrow> tok list list \<Rightarrow> ustr \<Rightarrow> nat option" where
  "first_match L [] error_msg = None"
| "first_match L (pattern # rest) error_msg =
     (case re_search L pattern error_msg of
        Some g \<Rightarrow> Some (int_of L g)
      | None \<Rightarrow> first_match L rest error_msg)"

definition extract_wait_time :: "pylib \<Rightarrow> ustr \<Rightarrow> nat option" where
  "extract_wait_time L error_msg = first_match L patterns error_msg"

section \<open>What a download does to the world\<close>

text \<open>
  The provider (the \<open>vnstock\<close> client) is outside the scripts: \<open>quote symbol start
  end k\<close> is what the lines from the import of \<open>Quote\<close> to \<open>quote.history(...)\<close> do on
  the attempt with index \<open>k\<close>: they raise an exception with text \<open>str(e)\<close>, return
  \<open>None\<close>, or return a table. Of a table the scripts use \<open>df.empty\<close> (an axis of
  length zero), \<open>len(df)\<close> and the first and last index label as text.
\<close>

record dataframe =
  df_index :: "ustr list"
  df_columns :: nat

definition df_empty :: "dataframe \<Rightarrow> bool" where
  "df_empty df = (df_index df = [] \<or> df_columns df = 0)"

datatype fetch_result = Raises ustr | ReturnsNone | Returns dataframe

type_synonym provider = "ustr \<Rightarrow> ustr \<Rightarrow> ustr \<Rightarrow> nat \<Rightarrow> fetch_result"

text \<open>
  The effects, in the order they happen: \<open>Gate\<close> is one pass through the critical
  section that paces requests (lines 111 to 116; its sleep depends on the wall clock,
  which is not modelled), \<open>History\<close> is one fetch attempt, \<open>Wait n\<close> is
  \<open>wait_with_countdown(n)\<close> sleeping \<open>n\<close> seconds, \<open>Stamp\<close> is the update of
  \<open>last_request_time\<close> after a wait, \<open>Write f\<close> is \<open>to_parquet\<close> creating \<open>f\<close>
  in the output directory. \<open>files\<close> are the names in the output directory;
  writing is taken to succeed.
\<close>

datatype event = Gate | History ustr ustr ustr | Wait int | Stamp | Write ustr

record world =
  files :: "ustr list"
  log :: "event list"

definition rate_gate :: "world \<Rightarrow> world" where
  "rate_gate w = w\<lparr>log := log w @ [Gate]\<rparr>"

definition request :: "ustr \<Rightarrow> ustr \<Rightarrow> ustr \<Rightarrow> world \<Rightarrow> world" where
  "request symbol start_date end_date w = w\<lparr>log := log w @ [History symbol start_date end_date]\<rparr>"

definition stamp :: "world \<Rightarrow> world" where
  "stamp w = w\<lparr>log := log w @ [Stamp]\<rparr>"

text \<open>The file of a symbol: \<open>output_dir / f"{symbol}.parquet"\<close>.\<close>

definition artifact :: "ustr \<Rightarrow> ustr" where
  "artifact symbol = symbol @ asc ''.parquet''"

definition to_parquet :: "ustr \<Rightarrow> world \<Rightarrow> world" where
  "to_parquet f w = w\<lparr>files := List.insert f (files w), log := log w @ [Write f]\<rparr>"

text \<open>
  \<open>wait_with_countdown\<close> returns at once when \<open>wait_time <= 0\<close>; otherwise its loop
  sleeps one second \<open>wait_time\<close> times.
\<close>

definition wait_with_countdown :: "int \<Rightarrow> world \<Rightarrow> world" where
  "wait_with_countdown wait_time w =
     (if wait_time \<le> 0 then w else w\<lparr>log := log w @ [Wait wait_time]\<rparr>)"

fun attempts_of :: "event list \<Rightarrow> nat" where
  "attempts_of [] = 0"
| "attempts_of (History s a b # es) = Suc (attempts_of es)"
| "attempts_of (e # es) = attempts_of es"

fun waits_of :: "event list \<Rightarrow> int list" where
  "waits_of [] = []"
| "waits_of (Wait n # es) = n # waits_of es"
| "waits_of (e # es) = waits_of es"

fun writes_of :: "event list \<Rightarrow> ustr list" where
  "writes_of [] = []"
| "writes_of (Write f # es) = f # writes_of es"
| "writes_of (e # es) = writes_of es"

subsection \<open>Messages\<close>

text \<open>\<open>str\<close> of an integer, as the f-strings format \<open>max_retries\<close> and \<open>wait_time\<close>.\<close>

function digits_of :: "nat \<Rightarrow> ustr" where
  "digits_of n = (if n < 10 then [48 + n] else digits_of (n div 10) @ [48 + n mod 10])"
  by pat_completeness auto
termination
  by (relation "measure (\<lambda>n. n)") auto

declare digits_of.simps [simp del]

definition str_int :: "int \<Rightarrow> ustr" where
  "str_int i = (if i < 0 then 45 # digits_of (nat (- i)) else digits_of (nat i))"

definition msg_no_data :: ustr where
  "msg_no_data = asc ''Kh'' @ [244] @ asc ''ng c'' @ [243] @ asc '' d'' @ [7919]
                 @ asc '' li'' @ [7879] @ asc ''u''"

definition msg_ok :: "ustr \<Rightarrow> ustr \<Rightarrow> ustr" where
  "msg_ok first_date last_date = asc ''OK: '' @ first_date @ asc '' -> '' @ last_date"

definition msg_rate_wait :: "int \<Rightarrow> int \<Rightarrow> ustr" where
  "msg_rate_wait max_retries wait_time =
     asc ''Rate limit ('' @ [273, 227] @ asc '' retry '' @ str_int max_retries
     @ asc ''x): ch'' @ [7901] @ asc '' '' @ str_int wait_time @ asc ''s''"

definition msg_rate_retried :: "int \<Rightarrow> ustr \<Rightarrow> ustr" where
  "msg_rate_retried max_retries error_msg =
     asc ''Rate limit (retried '' @ str_int max_retries @ asc ''x): '' @ take 80 error_msg"

definition msg_failed_after :: "int \<Rightarrow> ustr" where
  "msg_failed_after max_retries =
     asc ''Failed after '' @ str_int max_retries @ asc '' attempts''"

definition msg_other :: "ustr \<Rightarrow> ustr" where
  "msg_other error_msg =
     (if length error_msg > 100 then take 100 error_msg @ asc ''...'' else error_msg)"

section \<open>The retry loop\<close>

text \<open>
  \<open>download_symbol_data\<close> returns \<open>(symbol, success, message, row_count)\<close>.
  \<open>attempts_from\<close> is the loop \<open>for attempt in range(max_retries)\<close> from the
  iteration \<open>attempt\<close> on: \<open>continue\<close> is the recursive call, each \<open>return\<close> ends
  it, and the line after the loop is reached when \<open>range\<close> is exhausted.
  \<open>download_vn30_data\<close> is the same loop with \<open>symbol = "VN30"\<close>.
\<close>

type_synonym result = "ustr \<times> bool \<times> ustr \<times> nat"

function attempts_from ::
  "pylib \<Rightarrow> provider \<Rightarrow> ustr \<Rightarrow> ustr \<Rightarrow> ustr \<Rightarrow> int \<Rightarrow> nat \<Rightarrow> world \<Rightarrow> result \<times> world" where
  "attempts_from L quote symbol start_date end_date max_retries attempt w =
     (if int attempt < max_retries then
        (case quote symbol start_date end_date attempt of
           ReturnsNone \<Rightarrow>
             ((symbol, False, msg_no_data, 0),
              request symbol start_date end_date (rate_gate w))
         | Returns df \<Rightarrow>
             (if df_empty df then
                ((symbol, False, msg_no_data, 0),
                 request symbol start_date end_date (rate_gate w))
              else
                ((symbol, True, msg_ok (hd (df_index df)) (last (df_index df)),
                  length (df_index df)),
                 to_parquet (artifact symbol)
                   (request symbol start_date end_date (rate_gate w))))
         | Raises error_msg \<Rightarrow>
             (if is_rate_limit L error_msg then
                (case extract_wait_time L error_msg of
                   Some n \<Rightarrow>
                     (if int attempt < max_retries - 1 then
                        attempts_from L quote symbol start_date end_date max_retries
                          (Suc attempt)
                          (stamp (wait_with_countdown (int n + 5)
                             (request symbol start_date end_date (rate_gate w))))
                      else
                        ((symbol, False, msg_rate_wait max_retries (int n + 5), 0),
                         request symbol start_date end_date (rate_gate w)))
                 | None \<Rightarrow>
                     (if int attempt < max_retries - 1 then
                        attempts_from L quote symbol start_date end_date max_retries
                          (Suc attempt)
                          (stamp (wait_with_countdown (2 ^ attempt * 15)
                             (request symbol start_date end_date (rate_gate w))))
                      else
                        ((symbol, False, msg_rate_retried max_retries error_msg, 0),
                         request symbol start_date end_date (rate_gate w))))
              else
                ((symbol, False, msg_other error_msg, 0),
                 request symbol start_date end_date (rate_gate w))))
      else ((symbol, False, msg_failed_after max_retries, 0), w))"
  by pat_completeness auto
termination
  by (relation "measure (\<lambda>(L, quote, symbol, start_date, end_date, max_retries, attempt, w).
        nat (max_retries - int attempt))") auto

declare attempts_from.simps [simp del]

definition download_symbol_data ::
  "pylib \<Rightarrow> provider \<Rightarrow> ustr \<Rightarrow> ustr \<Rightarrow> ustr \<Rightarrow> int \<Rightarrow> world \<Rightarrow> result \<times> world" where
  "download_symbol_data L quote symbol start_date end_date max_retries w =
     attempts_from L quote symbol start_date end_date max_retries 0 w"

definition download_vn30_data ::
  "pylib \<Rightarrow> provider \<Rightarrow> ustr \<Rightarrow> ustr \<Rightarrow> int \<Rightarrow> world \<Rightarrow> result \<times> world" where
  "download_vn30_data L quote start_date end_date max_retries w =
     attempts_from L quote (asc ''VN30'') start_date end_date max_retries 0 w"

text \<open>
  The fields of a result, the default \<open>max_retries = 5\<close> of both functions, and the
  value the two throttling branches give \<open>wait_time\<close> (named for the statements
  below).
\<close>

definition succeeded :: "result \<Rightarrow> bool" where
  "succeeded r = fst (snd r)"

definition row_count_of :: "result \<Rightarrow> nat" where
  "row_count_of r = snd (snd (snd r))"

definition default_max_retries :: int where
  "default_max_retries = 5"

definition computed_wait :: "pylib \<Rightarrow> ustr \<Rightarrow> nat \<Rightarrow> int" where
  "computed_wait L error_msg attempt =
     (case extract_wait_time L error_msg of
        Some n \<Rightarrow> int n + 5
      | None \<Rightarrow> 2 ^ attempt * 15)"

section \<open>The batch driver\<close>

text \<open>
  \<open>download_all_symbols\<close> lists the output directory with \<open>glob("*.parquet")\<close>,
  takes \<open>f.stem\<close> of each name, and keeps the symbols that are not among the stems.
  \<open>*.parquet\<close> matches the names that end in \<open>.parquet\<close>; \<open>stem\<close> cuts the name at
  its last dot when that dot is neither the first nor the last character
  (\<open>i = name.rfind('.')\<close>, \<open>0 < i < len(name) - 1\<close>).
\<close>

definition glob_parquet :: "ustr \<Rightarrow> bool" where
  "glob_parquet name =
     (8 \<le> length name \<and> drop (length name - 8) name = asc ''.parquet'')"

fun rfind :: "nat \<Rightarrow> ustr \<Rightarrow> int" where
  "rfind c [] = - 1"
| "rfind c (x # xs) =
     (if 0 \<le> rfind c xs then rfind c xs + 1 else if x = c then 0 else - 1)"

definition stem :: "ustr \<Rightarrow> ustr" where
  "stem name =
     (if 0 < rfind 46 name \<and> rfind 46 name < int (length name) - 1
      then take (nat (rfind 46 name)) name else name)"

definition existing_files :: "ustr list \<Rightarrow> ustr list" where
  "existing_files fs = map stem (filter glob_parquet fs)"

definition symbols_to_download :: "ustr list \<Rightarrow> ustr list \<Rightarrow> ustr list" where
  "symbols_to_download symbols fs = filter (\<lambda>s. s \<notin> set (existing_files fs)) symbols"

text \<open>
  The pool runs \<open>download_symbol_data\<close> once for each symbol to download, with the
  default \<open>max_retries\<close>; here one after the other in the order of submission, as
  the default single worker does. Each download answers to its own symbol and
  writes only its own file. \<open>symbols\<close> is what \<open>get_all_symbols()\<close> returned (the
  empty list when it failed). The model returns the results of the downloads, in
  order, and the world they leave.

  The bookkeeping after each future (counters, progress bar, pacing sleep) and the
  manifest and failed list written at the end start no download and create no
  \<open>.parquet\<close> file, and are left out. The \<open>except\<close> branch of that bookkeeping
  downloads a symbol a second time only when the text it caught is a throttling
  text. What it catches is the \<open>UnboundLocalError\<close> of the pacing code
  (\<open>last_request_time\<close> is assigned in \<open>download_all_symbols\<close> without a
  \<open>global\<close> declaration and read before), whose text holds no throttling phrase,
  so no second download is started.
\<close>

fun run_items ::
  "pylib \<Rightarrow> provider \<Rightarrow> ustr list \<Rightarrow> ustr \<Rightarrow> ustr \<Rightarrow> world \<Rightarrow> result list \<times> world" where
  "run_items L quote [] start_date end_date w = ([], w)"
| "run_items L quote (symbol # rest) start_date end_date w =
     (case download_symbol_data L quote symbol start_date end_date default_max_retries w of
        (r, w1) \<Rightarrow>
          (case run_items L quote rest start_date end_date w1 of
             (rs, w2) \<Rightarrow> (r # rs, w2)))"

definition download_all_symbols ::
  "pylib \<Rightarrow> provider \<Rightarrow> ustr list \<Rightarrow> ustr \<Rightarrow> ustr \<Rightarrow> world \<Rightarrow> result list \<times> world" where
  "download_all_symbols L quote symbols start_date end_date w =
     (if symbols = [] then ([], w)
      else if symbols_to_download symbols (files w) = [] then ([], w)
      else run_items L quote (symbols_to_download symbols (files w)) start_date end_date w)"



section \<open>The entry points\<close>

text \<open>
  Both \<open>main\<close> functions wrap the batch in \<open>try\<close> with
  \<open>except KeyboardInterrupt: sys.exit(0)\<close> and \<open>except Exception: sys.exit(1)\<close>;
  returning from \<open>main\<close> ends the process with status 0. \<open>stop\<close> is what ends the
  batch from outside the per-item boundary, if anything does: the operator's
  interrupt, or an exception that nothing below \<open>main\<close> handles.
  \<open>download_vn30\<close> itself calls \<open>sys.exit(1)\<close> when its download failed
  (\<open>SystemExit\<close> is not an \<open>Exception\<close>, so it passes the handlers); \<open>proceed\<close>
  says that the download is made (the file is absent, \<open>--force\<close> is given, or the
  operator answers \<open>y\<close>).
\<close>

datatype stop = KeyboardInterrupt | Exception ustr

definition main_vn_stocks ::
  "pylib \<Rightarrow> provider \<Rightarrow> ustr list \<Rightarrow> ustr \<Rightarrow> ustr \<Rightarrow> world \<Rightarrow> stop option \<Rightarrow> int" where
  "main_vn_stocks L quote symbols start_date end_date w interruption =
     (case interruption of
        Some KeyboardInterrupt \<Rightarrow> 0
      | Some (Exception e) \<Rightarrow> 1
      | None \<Rightarrow>
          (case download_all_symbols L quote symbols start_date end_date w of
             (rs, w1) \<Rightarrow> 0))"

definition main_vn30 ::
  "pylib \<Rightarrow> provider \<Rightarrow> ustr \<Rightarrow> ustr \<Rightarrow> world \<Rightarrow> bool \<Rightarrow> stop option \<Rightarrow> int" where
  "main_vn30 L quote start_date end_date w proceed interruption =
     (case interruption of
        Some KeyboardInterrupt \<Rightarrow> 0
      | Some (Exception e) \<Rightarrow> 1
      | None \<Rightarrow>
          (if \<not> proceed then 0
           else if succeeded (fst (download_vn30_data L quote start_date end_date
                                     default_max_retries w))
           then 0 else 1))"

section \<open>Facts about the retry loop\<close>

lemma attempts_of_append: "attempts_of (xs @ ys) = attempts_of xs + attempts_of ys"
  by (induction xs rule: attempts_of.induct) auto

lemma waits_of_append: "waits_of (xs @ ys) = waits_of xs @ waits_of ys"
  by (induction xs rule: waits_of.induct) auto

lemma writes_of_append: "writes_of (xs @ ys) = writes_of xs @ writes_of ys"
  by (induction xs rule: writes_of.induct) auto

lemma request_gate:
  "request s a b (rate_gate w) = w\<lparr>log := log w @ [Gate, History s a b]\<rparr>"
  by (simp add: request_def rate_gate_def)

lemma computed_wait_pos: "0 < computed_wait L e i"
  by (simp add: computed_wait_def split: option.split)

lemma stamp_wait:
  "0 < n \<Longrightarrow> stamp (wait_with_countdown n w) = w\<lparr>log := log w @ [Wait n, Stamp]\<rparr>"
  by (simp add: stamp_def wait_with_countdown_def)

text \<open>One equation for each way an iteration of the loop can go.\<close>

lemma exhausted_step:
  "\<not> int i < m \<Longrightarrow> attempts_from L q s a b m i w = ((s, False, msg_failed_after m, 0), w)"
  by (simp add: attempts_from.simps)

lemma retry_step:
  assumes "int i < m - 1" "q s a b i = Raises e" "is_rate_limit L e"
  shows "attempts_from L q s a b m i w =
         attempts_from L q s a b m (Suc i)
           (w\<lparr>log := log w @ [Gate, History s a b, Wait (computed_wait L e i), Stamp]\<rparr>)"
proof -
  from assms(1) have lt: "int i < m" by simp
  have pos: "0 < computed_wait L e i" by (rule computed_wait_pos)
  show ?thesis
    using assms lt stamp_wait[OF pos, of "request s a b (rate_gate w)"]
    by (simp add: attempts_from.simps[of L q s a b m i] computed_wait_def request_gate
             split: option.splits)
qed

lemma last_step:
  assumes "int i = m - 1" "q s a b i = Raises e" "is_rate_limit L e"
  shows "attempts_from L q s a b m i w =
         ((s, False,
           (case extract_wait_time L e of
              Some n \<Rightarrow> msg_rate_wait m (int n + 5)
            | None \<Rightarrow> msg_rate_retried m e), 0),
          w\<lparr>log := log w @ [Gate, History s a b]\<rparr>)"
  using assms
  by (simp add: attempts_from.simps[of L q s a b m i] request_gate split: option.splits)

lemma other_step:
  assumes "int i < m" "q s a b i = Raises e" "\<not> is_rate_limit L e"
  shows "attempts_from L q s a b m i w =
         ((s, False, msg_other e, 0), w\<lparr>log := log w @ [Gate, History s a b]\<rparr>)"
  using assms by (simp add: attempts_from.simps[of L q s a b m i] request_gate)

lemma no_data_step:
  assumes "int i < m"
    and "q s a b i = ReturnsNone \<or> (\<exists>df. q s a b i = Returns df \<and> df_empty df)"
  shows "attempts_from L q s a b m i w =
         ((s, False, msg_no_data, 0), w\<lparr>log := log w @ [Gate, History s a b]\<rparr>)"
  using assms by (auto simp add: attempts_from.simps[of L q s a b m i] request_gate)

lemma success_step:
  assumes "int i < m" "q s a b i = Returns df" "\<not> df_empty df"
  shows "attempts_from L q s a b m i w =
         ((s, True, msg_ok (hd (df_index df)) (last (df_index df)), length (df_index df)),
          w\<lparr>files := List.insert (artifact s) (files w),
            log := log w @ [Gate, History s a b, Write (artifact s)]\<rparr>)"
  using assms by (simp add: attempts_from.simps[of L q s a b m i] request_gate to_parquet_def)

lemma attempts_from_bound:
  "attempts_of (log (snd (attempts_from L q s a b m i w)))
   \<le> attempts_of (log w) + nat (m - int i)"
proof (induction "nat (m - int i)" arbitrary: i w)
  case 0
  then have "\<not> int i < m" by simp
  then show ?case by (simp add: exhausted_step)
next
  case (Suc k)
  then have lt: "int i < m" by linarith
  show ?case
  proof (cases "q s a b i")
    case ReturnsNone
    with lt show ?thesis by (simp add: no_data_step attempts_of_append)
  next
    case (Returns df)
    with lt show ?thesis
      by (cases "df_empty df") (simp_all add: no_data_step success_step attempts_of_append)
  next
    case (Raises e)
    show ?thesis
    proof (cases "is_rate_limit L e")
      case False
      with lt Raises show ?thesis by (simp add: other_step attempts_of_append)
    next
      case True
      show ?thesis
      proof (cases "int i < m - 1")
        case False
        with lt have "int i = m - 1" by simp
        with Raises True show ?thesis by (simp add: last_step attempts_of_append)
      next
        case lt1: True
        from Suc.hyps(2) have k: "k = nat (m - int (Suc i))" by simp
        from lt1 have ar: "Suc (nat (m - int (Suc i))) = nat (m - int i)" by simp
        have "attempts_of (log (snd (attempts_from L q s a b m (Suc i)
                (w\<lparr>log := log w @ [Gate, History s a b, Wait (computed_wait L e i), Stamp]\<rparr>))))
              \<le> attempts_of (log w) + Suc (nat (m - int (Suc i)))"
          using Suc.hyps(1)[OF k,
              of "w\<lparr>log := log w @ [Gate, History s a b, Wait (computed_wait L e i), Stamp]\<rparr>"]
          by (simp add: attempts_of_append)
        then show ?thesis
          unfolding ar by (simp add: retry_step[of i m q s a b e L, OF lt1 Raises True])
      qed
    qed
  qed
qed

lemma all_throttled_run:
  assumes th: "\<And>k. int k < m \<Longrightarrow> \<exists>e. q s a b k = Raises e \<and> is_rate_limit L e"
  shows "attempts_of (log (snd (attempts_from L q s a b m i w)))
           = attempts_of (log w) + nat (m - int i)
         \<and> \<not> succeeded (fst (attempts_from L q s a b m i w))
         \<and> row_count_of (fst (attempts_from L q s a b m i w)) = 0"
proof (induction "nat (m - int i)" arbitrary: i w)
  case 0
  then have "\<not> int i < m" by simp
  then show ?case by (simp add: exhausted_step succeeded_def row_count_of_def)
next
  case (Suc k)
  then have lt: "int i < m" by linarith
  from th[OF lt] obtain e where e: "q s a b i = Raises e" and rl: "is_rate_limit L e"
    by blast
  show ?case
  proof (cases "int i < m - 1")
    case False
    with lt have eq: "int i = m - 1" by simp
    then have "nat (m - int i) = 1" by simp
    with eq e rl show ?thesis
      by (simp add: last_step attempts_of_append succeeded_def row_count_of_def)
  next
    case lt1: True
    from Suc.hyps(2) have k: "k = nat (m - int (Suc i))" by simp
    from lt1 have ar: "Suc (nat (m - int (Suc i))) = nat (m - int i)" by simp
    show ?thesis
      using Suc.hyps(1)[OF k,
          of "w\<lparr>log := log w @ [Gate, History s a b, Wait (computed_wait L e i), Stamp]\<rparr>"]
      unfolding ar[symmetric]
      by (simp add: retry_step[of i m q s a b e L, OF lt1 e rl] attempts_of_append)
  qed
qed

text \<open>The last iteration, and the line after the loop, never wait.\<close>

lemma no_wait_at_end:
  assumes "\<not> int i < m - 1"
  shows "waits_of (log (snd (attempts_from L q s a b m i w))) = waits_of (log w)"
proof (cases "int i < m")
  case False
  then show ?thesis by (simp add: exhausted_step)
next
  case lt: True
  with assms have eq: "int i = m - 1" by simp
  show ?thesis
  proof (cases "q s a b i")
    case ReturnsNone
    with lt show ?thesis by (simp add: no_data_step waits_of_append)
  next
    case (Returns df)
    with lt show ?thesis
      by (cases "df_empty df") (simp_all add: no_data_step success_step waits_of_append)
  next
    case (Raises e)
    with lt eq show ?thesis
      by (cases "is_rate_limit L e") (simp_all add: other_step last_step waits_of_append)
  qed
qed

lemma no_hint_waits:
  assumes th: "\<And>k. int k < m - 1 \<Longrightarrow>
     \<exists>e. q s a b k = Raises e \<and> is_rate_limit L e \<and> extract_wait_time L e = None"
  shows "waits_of (log (snd (attempts_from L q s a b m i w)))
         = waits_of (log w) @ map (\<lambda>k. 15 * 2 ^ k) [i ..< nat (m - 1)]"
proof (induction "nat (m - 1 - int i)" arbitrary: i w)
  case 0
  then have ge: "\<not> int i < m - 1" by simp
  then have "[i ..< nat (m - 1)] = []" by simp
  with ge show ?case by (simp add: no_wait_at_end)
next
  case (Suc k)
  then have lt1: "int i < m - 1" by linarith
  from th[OF lt1] obtain e where e: "q s a b i = Raises e" and rl: "is_rate_limit L e"
    and nh: "extract_wait_time L e = None" by blast
  from nh have cw: "computed_wait L e i = 15 * 2 ^ i" by (simp add: computed_wait_def)
  from Suc.hyps(2) have k: "k = nat (m - 1 - int (Suc i))" by simp
  from lt1 have up: "[i ..< nat (m - 1)] = i # [Suc i ..< nat (m - 1)]"
    by (simp add: upt_conv_Cons)
  show ?case
    using Suc.hyps(1)[OF k,
        of "w\<lparr>log := log w @ [Gate, History s a b, Wait (computed_wait L e i), Stamp]\<rparr>"]
    by (simp add: retry_step[of i m q s a b e L, OF lt1 e rl] waits_of_append cw up)
qed

text \<open>
  \<open>download_vn30_data\<close> is \<open>download_symbol_data\<close> for the symbol \<open>VN30\<close>, so
  what is proved of the one holds of the other.
\<close>

lemma download_vn30_data_eq:
  "download_vn30_data L q a b m w = download_symbol_data L q (asc ''VN30'') a b m w"
  by (simp add: download_vn30_data_def download_symbol_data_def)

section \<open>Facts about the text functions\<close>

lemma py_in_iff: "py_in p s \<longleftrightarrow> (\<exists>u v. s = u @ p @ v)"
proof (induction s)
  case Nil
  then show ?case by simp
next
  case (Cons c cs)
  show ?case
  proof
    assume "py_in p (c # cs)"
    then consider "take (length p) (c # cs) = p" | "py_in p cs" by auto
    then show "\<exists>u v. c # cs = u @ p @ v"
    proof cases
      case 1
      then have "c # cs = [] @ p @ drop (length p) (c # cs)"
        by (metis append_Nil append_take_drop_id)
      then show ?thesis by blast
    next
      case 2
      with Cons.IH obtain u v where "cs = u @ p @ v" by blast
      then have "c # cs = (c # u) @ p @ v" by simp
      then show ?thesis by blast
    qed
  next
    assume "\<exists>u v. c # cs = u @ p @ v"
    then obtain u v where uv: "c # cs = u @ p @ v" by blast
    show "py_in p (c # cs)"
    proof (cases u)
      case Nil
      with uv have "take (length p) (c # cs) = p" by simp
      then show ?thesis by simp
    next
      case (Cons x u')
      with uv have "cs = u' @ p @ v" by simp
      with Cons.IH have "py_in p cs" by blast
      then show ?thesis by simp
    qed
  qed
qed

















section \<open>Texts with a single number\<close>







section \<open>Facts about the batch driver\<close>















section \<open>The attempt bound\<close>

text \<open>
  Claim C1. For every work item and every bound \<open>max_retries\<close> (a count, so not
  negative), \<open>download_symbol_data\<close> makes at most \<open>max_retries\<close> fetch attempts,
  whatever the provider answers and however many attempts are classified as
  throttling; and when every attempt raises a throttling error, it makes exactly
  \<open>max_retries\<close> attempts and then returns a failed result with row count 0.
\<close>

theorem retry_loop_attempt_bound:
  assumes "0 \<le> max_retries"
  shows "int (attempts_of (log (snd (download_symbol_data L quote symbol start_date end_date
                                       max_retries w))))
           \<le> int (attempts_of (log w)) + max_retries
         \<and> ((\<forall>k. int k < max_retries \<longrightarrow>
                 (\<exists>e. quote symbol start_date end_date k = Raises e \<and> is_rate_limit L e))
              \<longrightarrow> int (attempts_of (log (snd (download_symbol_data L quote symbol start_date
                                                 end_date max_retries w))))
                    = int (attempts_of (log w)) + max_retries
                  \<and> \<not> succeeded (fst (download_symbol_data L quote symbol start_date end_date
                                         max_retries w))
                  \<and> row_count_of (fst (download_symbol_data L quote symbol start_date
                                         end_date max_retries w)) = 0)"
proof -
  have "attempts_of (log (snd (attempts_from L quote symbol start_date end_date max_retries 0 w)))
        \<le> attempts_of (log w) + nat (max_retries - int 0)"
    by (rule attempts_from_bound)
  with assms have bound: "int (attempts_of (log (snd (download_symbol_data L quote symbol
                             start_date end_date max_retries w))))
                          \<le> int (attempts_of (log w)) + max_retries"
    by (simp add: download_symbol_data_def)
  have exact: "int (attempts_of (log (snd (download_symbol_data L quote symbol start_date
                       end_date max_retries w))))
                 = int (attempts_of (log w)) + max_retries
               \<and> \<not> succeeded (fst (download_symbol_data L quote symbol start_date end_date
                                     max_retries w))
               \<and> row_count_of (fst (download_symbol_data L quote symbol start_date
                                     end_date max_retries w)) = 0"
    if th: "\<forall>k. int k < max_retries \<longrightarrow>
              (\<exists>e. quote symbol start_date end_date k = Raises e \<and> is_rate_limit L e)"
  proof -
    from th have "\<And>k. int k < max_retries \<Longrightarrow>
        \<exists>e. quote symbol start_date end_date k = Raises e \<and> is_rate_limit L e"
      by blast
    from all_throttled_run[of max_retries quote symbol start_date end_date L 0 w, OF this] assms
    show ?thesis by (simp add: download_symbol_data_def)
  qed
  from bound exact show ?thesis by blast
qed

theorem retry_loop_attempt_bound_witness:
  "(0::int) \<le> 5
   \<and> attempts_of (log (snd (download_symbol_data py_ascii
         (\<lambda>s a b k. Raises (asc ''Too Many Requests''))
         (asc ''ABC'') (asc ''2024-01-01'') (asc ''2024-06-01'') 5
         \<lparr>files = [], log = []\<rparr>))) = 5
   \<and> \<not> succeeded (fst (download_symbol_data py_ascii
         (\<lambda>s a b k. Raises (asc ''Too Many Requests''))
         (asc ''ABC'') (asc ''2024-01-01'') (asc ''2024-06-01'') 5
         \<lparr>files = [], log = []\<rparr>))"
proof -
  have h0: "(0::int) \<le> 5" by simp
  have rl: "is_rate_limit py_ascii (asc ''Too Many Requests'')" by code_simp
  have th: "\<forall>k. int k < 5 \<longrightarrow>
      (\<exists>e. (\<lambda>s a b k. Raises (asc ''Too Many Requests''))
              (asc ''ABC'') (asc ''2024-01-01'') (asc ''2024-06-01'') k = Raises e
           \<and> is_rate_limit py_ascii e)"
    using rl by simp
  from retry_loop_attempt_bound[where max_retries = 5 and L = py_ascii
      and quote = "\<lambda>s a b k. Raises (asc ''Too Many Requests'')"
      and symbol = "asc ''ABC''" and start_date = "asc ''2024-01-01''"
      and end_date = "asc ''2024-06-01''" and w = "\<lparr>files = [], log = []\<rparr>"] h0 th
  show ?thesis by simp
qed

section \<open>Errors that are not throttling, and empty answers\<close>

text \<open>
  Claim C5. When the fetch of a work item raises an error whose text matches no
  throttling phrase, the retry loop makes exactly one attempt, waits zero seconds,
  writes nothing, and returns a failed result with row count 0 whose message is the
  error text, cut to its first 100 characters followed by \<open>...\<close> when it is longer
  than 100 characters. (The loop must be entered for a fetch to raise:
  \<open>max_retries\<close> is at least 1.)
\<close>

theorem other_failure_is_terminal:
  assumes "1 \<le> max_retries"
    and "quote symbol start_date end_date 0 = Raises error_msg"
    and "\<not> is_rate_limit L error_msg"
  shows "download_symbol_data L quote symbol start_date end_date max_retries w =
           ((symbol, False,
             (if length error_msg > 100 then take 100 error_msg @ asc ''...'' else error_msg),
             0),
            w\<lparr>log := log w @ [Gate, History symbol start_date end_date]\<rparr>)
         \<and> attempts_of (log (snd (download_symbol_data L quote symbol start_date end_date
                                    max_retries w))) = attempts_of (log w) + 1
         \<and> waits_of (log (snd (download_symbol_data L quote symbol start_date end_date
                                 max_retries w))) = waits_of (log w)
         \<and> files (snd (download_symbol_data L quote symbol start_date end_date
                         max_retries w)) = files w"
proof -
  from assms(1) have lt: "int 0 < max_retries" by simp
  have eq: "download_symbol_data L quote symbol start_date end_date max_retries w =
           ((symbol, False, msg_other error_msg, 0),
            w\<lparr>log := log w @ [Gate, History symbol start_date end_date]\<rparr>)"
    unfolding download_symbol_data_def
    by (rule other_step[of 0 max_retries quote symbol start_date end_date error_msg L,
          OF lt assms(2) assms(3)])
  then show ?thesis
    by (simp add: msg_other_def attempts_of_append waits_of_append)
qed

theorem other_failure_is_terminal_witness:
  "download_symbol_data py_ascii (\<lambda>s a b k. Raises (asc ''invalid symbol''))
     (asc ''ABC'') (asc ''2024-01-01'') (asc ''2024-06-01'') 5 \<lparr>files = [], log = []\<rparr>
   = ((asc ''ABC'', False, asc ''invalid symbol'', 0),
      \<lparr>files = [],
       log = [Gate, History (asc ''ABC'') (asc ''2024-01-01'') (asc ''2024-06-01'')]\<rparr>)"
proof -
  have h1: "(1::int) \<le> 5" by simp
  have h2: "(\<lambda>s a b k. Raises (asc ''invalid symbol''))
              (asc ''ABC'') (asc ''2024-01-01'') (asc ''2024-06-01'') (0::nat)
            = Raises (asc ''invalid symbol'')" by simp
  have h3: "\<not> is_rate_limit py_ascii (asc ''invalid symbol'')" by code_simp
  have len: "\<not> length (asc ''invalid symbol'') > 100" by (simp add: asc_def)
  from other_failure_is_terminal[where max_retries = 5 and L = py_ascii
      and quote = "\<lambda>s a b k. Raises (asc ''invalid symbol'')"
      and symbol = "asc ''ABC''" and start_date = "asc ''2024-01-01''"
      and end_date = "asc ''2024-06-01''" and error_msg = "asc ''invalid symbol''"
      and w = "\<lparr>files = [], log = []\<rparr>"] h1 h2 h3 len
  show ?thesis by simp
qed

text \<open>
  Claim C6. When the fetch of a work item returns no table or an empty one, the
  loop ends on that attempt, in whatever iteration it happens: the result is the
  failed "no data" result with row count 0, and the attempt adds one fetch and
  nothing else: no retry, no wait, no file written. In particular a first fetch
  that comes back empty makes \<open>download_symbol_data\<close> return at once.
\<close>

theorem no_data_is_terminal:
  assumes "int attempt < max_retries"
    and "quote symbol start_date end_date attempt = ReturnsNone
         \<or> (\<exists>df. quote symbol start_date end_date attempt = Returns df \<and> df_empty df)"
  shows "attempts_from L quote symbol start_date end_date max_retries attempt w =
           ((symbol, False, msg_no_data, 0),
            w\<lparr>log := log w @ [Gate, History symbol start_date end_date]\<rparr>)
         \<and> attempts_of (log (snd (attempts_from L quote symbol start_date end_date
                                    max_retries attempt w))) = attempts_of (log w) + 1
         \<and> waits_of (log (snd (attempts_from L quote symbol start_date end_date
                                 max_retries attempt w))) = waits_of (log w)
         \<and> writes_of (log (snd (attempts_from L quote symbol start_date end_date
                                  max_retries attempt w))) = writes_of (log w)
         \<and> files (snd (attempts_from L quote symbol start_date end_date
                         max_retries attempt w)) = files w
         \<and> (attempt = 0 \<longrightarrow>
              download_symbol_data L quote symbol start_date end_date max_retries w =
                ((symbol, False, msg_no_data, 0),
                 w\<lparr>log := log w @ [Gate, History symbol start_date end_date]\<rparr>))"
proof -
  have eq: "attempts_from L quote symbol start_date end_date max_retries attempt w =
           ((symbol, False, msg_no_data, 0),
            w\<lparr>log := log w @ [Gate, History symbol start_date end_date]\<rparr>)"
    by (rule no_data_step[of attempt max_retries quote symbol start_date end_date L,
          OF assms(1) assms(2)])
  then show ?thesis
    by (auto simp add: attempts_of_append waits_of_append writes_of_append
          download_symbol_data_def)
qed

theorem no_data_is_terminal_witness:
  "download_symbol_data py_ascii
     (\<lambda>s a b k. Returns \<lparr>df_index = [], df_columns = 6\<rparr>)
     (asc ''ABC'') (asc ''2024-01-01'') (asc ''2024-06-01'') 5 \<lparr>files = [], log = []\<rparr>
   = ((asc ''ABC'', False, msg_no_data, 0),
      \<lparr>files = [],
       log = [Gate, History (asc ''ABC'') (asc ''2024-01-01'') (asc ''2024-06-01'')]\<rparr>)"
proof -
  have h1: "int 0 < 5" by simp
  have h2: "(\<lambda>s a b k. Returns \<lparr>df_index = [], df_columns = 6\<rparr>)
               (asc ''ABC'') (asc ''2024-01-01'') (asc ''2024-06-01'') (0::nat) = ReturnsNone
            \<or> (\<exists>df. (\<lambda>s a b k. Returns \<lparr>df_index = [], df_columns = 6\<rparr>)
                       (asc ''ABC'') (asc ''2024-01-01'') (asc ''2024-06-01'') (0::nat)
                     = Returns df \<and> df_empty df)"
    by (simp add: df_empty_def)
  from no_data_is_terminal[where attempt = 0 and max_retries = 5 and L = py_ascii
      and quote = "\<lambda>s a b k. Returns \<lparr>df_index = [], df_columns = 6\<rparr>"
      and symbol = "asc ''ABC''" and start_date = "asc ''2024-01-01''"
      and end_date = "asc ''2024-06-01''" and w = "\<lparr>files = [], log = []\<rparr>"] h1 h2
  show ?thesis by simp
qed

section \<open>Exponential backoff\<close>

text \<open>
  Claim C3. When the error text of the attempt with zero-based index \<open>attempt\<close> is
  classified as throttling and holds no numeric wait hint, and a retry follows
  (the attempt is not the last), the loop waits \<open>15 * 2 ^ attempt\<close> seconds and goes
  on with the next attempt. With the default five attempts, a provider that
  throttles the attempts 0 to 3 without a hint makes the waits 15, 30, 60 and 120
  seconds, in this order.
\<close>

theorem exponential_backoff:
  assumes "int attempt < max_retries - 1"
    and "quote symbol start_date end_date attempt = Raises error_msg"
    and "is_rate_limit L error_msg"
    and "extract_wait_time L error_msg = None"
  shows "attempts_from L quote symbol start_date end_date max_retries attempt w =
           attempts_from L quote symbol start_date end_date max_retries (Suc attempt)
             (w\<lparr>log := log w @ [Gate, History symbol start_date end_date,
                                 Wait (15 * 2 ^ attempt), Stamp]\<rparr>)
         \<and> ((\<forall>k<4. \<exists>e. quote symbol start_date end_date k = Raises e
                        \<and> is_rate_limit L e \<and> extract_wait_time L e = None)
              \<longrightarrow> waits_of (log (snd (download_symbol_data L quote symbol start_date end_date
                                         default_max_retries w)))
                  = waits_of (log w) @ [15, 30, 60, 120])"
proof -
  from assms(4) have cw: "computed_wait L error_msg attempt = 15 * 2 ^ attempt"
    by (simp add: computed_wait_def)
  have step: "attempts_from L quote symbol start_date end_date max_retries attempt w =
           attempts_from L quote symbol start_date end_date max_retries (Suc attempt)
             (w\<lparr>log := log w @ [Gate, History symbol start_date end_date,
                                 Wait (15 * 2 ^ attempt), Stamp]\<rparr>)"
    using retry_step[of attempt max_retries quote symbol start_date end_date error_msg L w,
        OF assms(1) assms(2) assms(3)]
    by (simp add: cw)
  have run: "waits_of (log (snd (download_symbol_data L quote symbol start_date end_date
                                   default_max_retries w)))
             = waits_of (log w) @ [15, 30, 60, 120]"
    if th: "\<forall>k<4. \<exists>e. quote symbol start_date end_date k = Raises e
                       \<and> is_rate_limit L e \<and> extract_wait_time L e = None"
  proof -
    from th have "\<And>k. int k < 5 - 1 \<Longrightarrow>
        \<exists>e. quote symbol start_date end_date k = Raises e
            \<and> is_rate_limit L e \<and> extract_wait_time L e = None"
      by simp
    from no_hint_waits[of 5 quote symbol start_date end_date L 0 w, OF this]
    have "waits_of (log (snd (attempts_from L quote symbol start_date end_date 5 0 w)))
          = waits_of (log w) @ map (\<lambda>k. 15 * 2 ^ k) [0 ..< 4]"
      by simp
    moreover have "map (\<lambda>k. (15::int) * 2 ^ k) [0 ..< 4] = [15, 30, 60, 120]"
      by (simp add: upt_rec)
    ultimately show ?thesis
      by (simp add: download_symbol_data_def default_max_retries_def)
  qed
  from step run show ?thesis by blast
qed

theorem exponential_backoff_witness:
  "waits_of (log (snd (download_symbol_data py_ascii
       (\<lambda>s a b k. Raises (asc ''Too Many Requests''))
       (asc ''ABC'') (asc ''2024-01-01'') (asc ''2024-06-01'') default_max_retries
       \<lparr>files = [], log = []\<rparr>))) = [15, 30, 60, 120]"
proof -
  have h1: "int 0 < 5 - 1" by simp
  have h2: "(\<lambda>s a b k. Raises (asc ''Too Many Requests''))
              (asc ''ABC'') (asc ''2024-01-01'') (asc ''2024-06-01'') (0::nat)
            = Raises (asc ''Too Many Requests'')" by simp
  have h3: "is_rate_limit py_ascii (asc ''Too Many Requests'')" by code_simp
  have h4: "extract_wait_time py_ascii (asc ''Too Many Requests'') = None" by code_simp
  have th: "\<forall>k<4. \<exists>e. (\<lambda>s a b k. Raises (asc ''Too Many Requests''))
                (asc ''ABC'') (asc ''2024-01-01'') (asc ''2024-06-01'') (k::nat) = Raises e
              \<and> is_rate_limit py_ascii e \<and> extract_wait_time py_ascii e = None"
    using h3 h4 by simp
  from exponential_backoff[where attempt = 0 and max_retries = 5 and L = py_ascii
      and quote = "\<lambda>s a b k. Raises (asc ''Too Many Requests'')"
      and symbol = "asc ''ABC''" and start_date = "asc ''2024-01-01''"
      and end_date = "asc ''2024-06-01''" and error_msg = "asc ''Too Many Requests''"
      and w = "\<lparr>files = [], log = []\<rparr>"] h1 h2 h3 h4 th
  show ?thesis by simp
qed

section \<open>Classification of error texts\<close>

text \<open>
  Claim C4. An error text is classified as throttling if and only if its lowered
  form (\<open>error_msg.lower()\<close>, the case-insensitive comparison of the scripts)
  contains one of the four fixed phrases: "rate limit", "too many request" (which
  every text with "too many requests" contains), "process terminated", or the
  Vietnamese phrase for "too many requests". Every other text takes the branch of
  the loop for other failures: the attempt that raised it is the last one, and the
  result is failed.
\<close>

theorem throttling_detection:
  "(is_rate_limit L error_msg \<longleftrightarrow>
      (\<exists>p\<in>set throttle_phrases. \<exists>u v. str_lower L error_msg = u @ p @ v))
   \<and> (int attempt < max_retries
        \<and> quote symbol start_date end_date attempt = Raises error_msg
        \<and> \<not> (\<exists>p\<in>set throttle_phrases. \<exists>u v. str_lower L error_msg = u @ p @ v)
      \<longrightarrow> attempts_from L quote symbol start_date end_date max_retries attempt w =
            ((symbol, False, msg_other error_msg, 0),
             w\<lparr>log := log w @ [Gate, History symbol start_date end_date]\<rparr>))"
proof -
  have iff: "is_rate_limit L error_msg \<longleftrightarrow>
      (\<exists>p\<in>set throttle_phrases. \<exists>u v. str_lower L error_msg = u @ p @ v)"
    by (simp add: is_rate_limit_def throttle_phrases_def py_in_iff)
  have other: "attempts_from L quote symbol start_date end_date max_retries attempt w =
            ((symbol, False, msg_other error_msg, 0),
             w\<lparr>log := log w @ [Gate, History symbol start_date end_date]\<rparr>)"
    if "int attempt < max_retries"
      and "quote symbol start_date end_date attempt = Raises error_msg"
      and "\<not> (\<exists>p\<in>set throttle_phrases. \<exists>u v. str_lower L error_msg = u @ p @ v)"
    using that iff
    by (simp add: other_step[of attempt max_retries quote symbol start_date end_date error_msg L])
  from iff other show ?thesis by blast
qed

theorem throttling_detection_witness:
  "is_rate_limit py_ascii (asc ''Server says: TOO MANY REQUESTS'')
   \<and> attempts_from py_ascii (\<lambda>s a b k. Raises (asc ''invalid symbol''))
        (asc ''ABC'') (asc ''2024-01-01'') (asc ''2024-06-01'') 5 0 \<lparr>files = [], log = []\<rparr>
      = ((asc ''ABC'', False, asc ''invalid symbol'', 0),
         \<lparr>files = [],
          log = [Gate, History (asc ''ABC'') (asc ''2024-01-01'') (asc ''2024-06-01'')]\<rparr>)"
proof -
  have low: "str_lower py_ascii (asc ''Server says: TOO MANY REQUESTS'')
             = asc ''server says: '' @ phrase_too_many @ asc ''s''"
    by code_simp
  have mem: "phrase_too_many \<in> set throttle_phrases" by (simp add: throttle_phrases_def)
  from low mem
  have ex: "\<exists>p\<in>set throttle_phrases. \<exists>u v.
              str_lower py_ascii (asc ''Server says: TOO MANY REQUESTS'') = u @ p @ v"
    by blast
  have n1: "\<not> py_in phrase_rate_limit (str_lower py_ascii (asc ''invalid symbol''))"
    by code_simp
  have n2: "\<not> py_in phrase_qua_nhieu (str_lower py_ascii (asc ''invalid symbol''))"
    by code_simp
  have n3: "\<not> py_in phrase_too_many (str_lower py_ascii (asc ''invalid symbol''))"
    by code_simp
  have n4: "\<not> py_in phrase_terminated (str_lower py_ascii (asc ''invalid symbol''))"
    by code_simp
  from n1 n2 n3 n4
  have nex: "\<not> (\<exists>p\<in>set throttle_phrases. \<exists>u v.
              str_lower py_ascii (asc ''invalid symbol'') = u @ p @ v)"
    by (simp add: throttle_phrases_def py_in_iff)
  have len: "msg_other (asc ''invalid symbol'') = asc ''invalid symbol''"
    by (simp add: msg_other_def asc_def)
  have lt: "int 0 < 5" by simp
  from throttling_detection[where L = py_ascii
      and error_msg = "asc ''Server says: TOO MANY REQUESTS''"] ex
  have a: "is_rate_limit py_ascii (asc ''Server says: TOO MANY REQUESTS'')" by blast
  from throttling_detection[where L = py_ascii and error_msg = "asc ''invalid symbol''"
      and attempt = 0 and max_retries = 5
      and quote = "\<lambda>s a b k. Raises (asc ''invalid symbol'')"
      and symbol = "asc ''ABC''" and start_date = "asc ''2024-01-01''"
      and end_date = "asc ''2024-06-01''" and w = "\<lparr>files = [], log = []\<rparr>"] nex lt len
  have b: "attempts_from py_ascii (\<lambda>s a b k. Raises (asc ''invalid symbol''))
        (asc ''ABC'') (asc ''2024-01-01'') (asc ''2024-06-01'') 5 0 \<lparr>files = [], log = []\<rparr>
      = ((asc ''ABC'', False, asc ''invalid symbol'', 0),
         \<lparr>files = [],
          log = [Gate, History (asc ''ABC'') (asc ''2024-01-01'') (asc ''2024-06-01'')]\<rparr>)"
    by simp
  from a b show ?thesis by blast
qed

section \<open>The order of the patterns\<close>



section \<open>Explicit wait hints\<close>




section \<open>Resuming a batch\<close>




section \<open>Exit codes\<close>

text \<open>
  Claim C8, as amended. The entry point of \<open>download_vn_stocks.py\<close> exits with
  code 0 when the batch completes, whatever the results of its items, and also
  with code 0 on the operator's interrupt; it exits with code 1 on an exception
  that nothing below \<open>main\<close> handles. The entry point of \<open>download_vn30.py\<close> does
  the same on an interrupt (0) and on an exception (1); when its run completes it
  exits with 1 if the download was made and failed, and with 0 otherwise.
\<close>

theorem exit_codes:
  "main_vn_stocks L quote symbols start_date end_date w None = 0
   \<and> main_vn_stocks L quote symbols start_date end_date w (Some KeyboardInterrupt) = 0
   \<and> main_vn_stocks L quote symbols start_date end_date w (Some (Exception e)) = 1
   \<and> main_vn30 L quote start_date end_date w proceed (Some KeyboardInterrupt) = 0
   \<and> main_vn30 L quote start_date end_date w proceed (Some (Exception e)) = 1
   \<and> main_vn30 L quote start_date end_date w proceed None
       = (if proceed \<and> \<not> succeeded (fst (download_vn30_data L quote start_date end_date
                                             default_max_retries w))
          then 1 else 0)"
  by (simp add: main_vn_stocks_def main_vn30_def split: prod.split)

theorem exit_codes_witness:
  "main_vn_stocks py_ascii (\<lambda>s a b k. Raises (asc ''invalid symbol''))
     [asc ''ABC''] (asc ''2024-01-01'') (asc ''2024-06-01'') \<lparr>files = [], log = []\<rparr> None = 0
   \<and> main_vn30 py_ascii (\<lambda>s a b k. Raises (asc ''invalid symbol''))
     (asc ''2024-01-01'') (asc ''2024-06-01'') \<lparr>files = [], log = []\<rparr> True None = 1"
proof -
  have "\<not> succeeded (fst (download_vn30_data py_ascii
           (\<lambda>s a b k. Raises (asc ''invalid symbol''))
           (asc ''2024-01-01'') (asc ''2024-06-01'') default_max_retries
           \<lparr>files = [], log = []\<rparr>))"
    by code_simp
  with exit_codes[where L = py_ascii and quote = "\<lambda>s a b k. Raises (asc ''invalid symbol'')"
      and symbols = "[asc ''ABC'']" and start_date = "asc ''2024-01-01''"
      and end_date = "asc ''2024-06-01''" and w = "\<lparr>files = [], log = []\<rparr>"
      and proceed = True]
  show ?thesis by simp
qed

theorem exit_code_interrupt_counterexample:
  "main_vn_stocks py_ascii (\<lambda>s a b k. ReturnsNone) [asc ''ABC'']
     (asc ''2024-01-01'') (asc ''2024-06-01'') \<lparr>files = [], log = []\<rparr>
     (Some KeyboardInterrupt) = 0
   \<and> main_vn30 py_ascii (\<lambda>s a b k. ReturnsNone)
     (asc ''2024-01-01'') (asc ''2024-06-01'') \<lparr>files = [], log = []\<rparr> True
     (Some KeyboardInterrupt) = 0"
  by (simp add: main_vn_stocks_def main_vn30_def)

end
